theory Spec2Isabelle
  imports Complex_Main "HOL-Library.Log_Nat"
begin

section \<open>Numbers\<close>

text \<open>
  The chart computes with JavaScript numbers. Every input of the component (prices,
  volumes, pixel widths) is a finite number and is modelled as a rational. In
  \<open>initializeData\<close> and \<open>createCandlestick\<close> below, arithmetic on finite values is exact;
  \<open>initializeData_double\<close> further down is \<open>initializeData\<close> with the rounding of double
  arithmetic, and the formula of the price scale is stated on it. The only operation of the component
  that leaves the finite numbers is the division by \<open>priceRange\<close> in
  \<open>createCandlestick\<close>, so the vertical pixel positions are values of \<open>jsnum\<close>, which
  adds the two infinities and NaN with the arithmetic JavaScript gives them (the sign of
  a zero is not modelled: a zero divisor is \<open>+0\<close>, which is what \<open>x - x\<close> evaluates to).
\<close>

datatype jsnum = Fin rat | PosInf | NegInf | NaN

fun jneg :: "jsnum \<Rightarrow> jsnum" where
  "jneg (Fin a) = Fin (- a)"
| "jneg PosInf = NegInf"
| "jneg NegInf = PosInf"
| "jneg NaN = NaN"

fun jadd :: "jsnum \<Rightarrow> jsnum \<Rightarrow> jsnum" where
  "jadd NaN _ = NaN"
| "jadd _ NaN = NaN"
| "jadd (Fin a) (Fin b) = Fin (a + b)"
| "jadd PosInf NegInf = NaN"
| "jadd NegInf PosInf = NaN"
| "jadd PosInf _ = PosInf"
| "jadd NegInf _ = NegInf"
| "jadd (Fin a) b = b"

definition jsub :: "jsnum \<Rightarrow> jsnum \<Rightarrow> jsnum" where
  "jsub a b = jadd a (jneg b)"

definition inf_of_sign :: "rat \<Rightarrow> jsnum" where
  \<comment> \<open>the infinity with the sign of a non-zero factor; NaN for zero\<close>
  "inf_of_sign a = (if 0 < a then PosInf else if a < 0 then NegInf else NaN)"

fun jmul :: "jsnum \<Rightarrow> jsnum \<Rightarrow> jsnum" where
  "jmul NaN _ = NaN"
| "jmul _ NaN = NaN"
| "jmul (Fin a) (Fin b) = Fin (a * b)"
| "jmul PosInf (Fin b) = inf_of_sign b"
| "jmul NegInf (Fin b) = inf_of_sign (- b)"
| "jmul (Fin a) PosInf = inf_of_sign a"
| "jmul (Fin a) NegInf = inf_of_sign (- a)"
| "jmul PosInf PosInf = PosInf"
| "jmul NegInf NegInf = PosInf"
| "jmul PosInf NegInf = NegInf"
| "jmul NegInf PosInf = NegInf"

fun jdiv :: "jsnum \<Rightarrow> jsnum \<Rightarrow> jsnum" where
  "jdiv NaN _ = NaN"
| "jdiv _ NaN = NaN"
| "jdiv (Fin a) (Fin b) = (if b = 0 then inf_of_sign a else Fin (a / b))"
| "jdiv PosInf (Fin b) = (if b < 0 then NegInf else PosInf)"
| "jdiv NegInf (Fin b) = (if b < 0 then PosInf else NegInf)"
| "jdiv (Fin a) _ = Fin 0"
| "jdiv _ _ = NaN"

fun jabs :: "jsnum \<Rightarrow> jsnum" where
  "jabs (Fin a) = Fin \<bar>a\<bar>"
| "jabs PosInf = PosInf"
| "jabs NegInf = PosInf"
| "jabs NaN = NaN"

text \<open>Comparison of JavaScript numbers: every comparison with NaN is false.\<close>

fun jle :: "jsnum \<Rightarrow> jsnum \<Rightarrow> bool" where
  "jle NaN _ = False"
| "jle _ NaN = False"
| "jle (Fin a) (Fin b) = (a \<le> b)"
| "jle NegInf _ = True"
| "jle _ PosInf = True"
| "jle _ _ = False"

fun Math_min2 :: "jsnum \<Rightarrow> jsnum \<Rightarrow> jsnum" where
  "Math_min2 NaN _ = NaN"
| "Math_min2 _ NaN = NaN"
| "Math_min2 a b = (if jle a b then a else b)"

fun Math_max2 :: "jsnum \<Rightarrow> jsnum \<Rightarrow> jsnum" where
  "Math_max2 NaN _ = NaN"
| "Math_max2 _ NaN = NaN"
| "Math_max2 a b = (if jle a b then b else a)"

fun is_finite :: "jsnum \<Rightarrow> bool" where
  "is_finite (Fin _) = True"
| "is_finite _ = False"

text \<open>
  \<open>Math.min(...prices)\<close> and \<open>Math.max(...prices)\<close> on a list of finite numbers. The
  component only calls them on the prices of a non-empty series, four per point; on no
  argument JavaScript returns an infinity, which the first equation does not model.
\<close>

fun Math_min :: "rat list \<Rightarrow> rat" where
  "Math_min [] = 0"
| "Math_min (x # xs) = fold min xs x"

fun Math_max :: "rat list \<Rightarrow> rat" where
  "Math_max [] = 0"
| "Math_max (x # xs) = fold max xs x"

section \<open>The data model (candlestick-chart.model.ts)\<close>

record CandlestickData =
  time :: string
  "open" :: rat
  high :: rat
  low :: rat
  close :: rat
  volume :: rat

datatype Trend = Up | Down | Flat

record MarketData =
  dataPoints :: "CandlestickData list"
  currentPrice :: rat
  priceChange :: rat
  trend :: Trend
  totalVolume :: rat
  periodHigh :: rat
  periodLow :: rat
  activeListings :: rat
  itemName :: string
  timePeriod :: string

record ChartConfig =
  chartHeight :: rat
  chartWidth :: rat
  candleWidth :: rat
  maxPrice :: rat
  minPrice :: rat
  yAxisLabels :: "string list"
  xAxisLabels :: "string list"

section \<open>The component (item-candlestick-chart.component.ts)\<close>

text \<open>
  The elements \<open>createCandlestick\<close> builds through the renderer, reduced to what it sets
  on them: the \<open>left\<close> of the candlestick, \<open>top\<close> and \<open>height\<close> of its wick, the colour
  class, \<open>top\<close> and \<open>height\<close> of its body, and the data point its hover listener shows;
  \<open>left\<close> and \<open>height\<close> of the volume bar.
\<close>

record candlestick_el =
  c_left :: rat
  wick_top :: jsnum
  wick_height :: jsnum
  body_green :: bool
  body_top :: jsnum
  body_height :: jsnum
  hover_data :: CandlestickData

record volume_el =
  v_left :: rat
  v_height :: rat

text \<open>
  The fields of \<open>ItemCandlestickChartComponent\<close>. \<open>chartContainer\<close> records whether the
  view child is present, \<open>resizeObserver\<close> whether the field is non-null. The elements
  held in \<open>candlesticks\<close> and \<open>volumeBars\<close> are the ones attached to the container:
  \<open>renderChart\<close> stores every element it appends and \<open>clearChart\<close> detaches every
  stored element.
\<close>

record Component =
  marketData :: "MarketData option"
  chartConfig :: ChartConfig
  candlesticks :: "candlestick_el list"
  volumeBars :: "volume_el list"
  initialized :: bool
  resizeObserver :: bool
  chartContainer :: bool

definition sampleMarketData :: MarketData where
  "sampleMarketData = \<lparr>
     dataPoints = [
       \<lparr>time = ''6h ago'', open = 1180, high = 1220, low = 1150, close = 1200, volume = 45\<rparr>,
       \<lparr>time = ''5h ago'', open = 1200, high = 1250, low = 1180, close = 1230, volume = 67\<rparr>,
       \<lparr>time = ''4h ago'', open = 1230, high = 1280, low = 1200, close = 1210, volume = 89\<rparr>,
       \<lparr>time = ''3h ago'', open = 1210, high = 1240, low = 950, close = 980, volume = 156\<rparr>,
       \<lparr>time = ''2h ago'', open = 980, high = 1100, low = 891, close = 1050, volume = 234\<rparr>,
       \<lparr>time = ''1h ago'', open = 1050, high = 1200, low = 1040, close = 1180, volume = 178\<rparr>,
       \<lparr>time = ''Now'', open = 1180, high = 1389, low = 1160, close = 1247, volume = 98\<rparr>],
     currentPrice = 1247,
     priceChange = 24 / 10,
     trend = Up,
     totalVolume = 1423,
     periodHigh = 1389,
     periodLow = 891,
     activeListings = 47,
     itemName = ''Dragon Sword'',
     timePeriod = ''Last 24 hours''\<rparr>"

definition initialChartConfig :: ChartConfig where
  "initialChartConfig = \<lparr>
     chartHeight = 360,
     chartWidth = 1040,
     candleWidth = 20,
     maxPrice = 1400,
     minPrice = 800,
     yAxisLabels = [''1,400'', ''1,300'', ''1,200'', ''1,100'', ''1,000'', ''900'', ''800''],
     xAxisLabels = [''6h ago'', ''5h ago'', ''4h ago'', ''3h ago'', ''2h ago'', ''1h ago'', ''Now'']\<rparr>"

text \<open>The component as constructed, with the value bound to its \<open>marketData\<close> input.\<close>

definition newComponent :: "MarketData option \<Rightarrow> Component" where
  "newComponent md = \<lparr>
     marketData = md,
     chartConfig = initialChartConfig,
     candlesticks = [],
     volumeBars = [],
     initialized = False,
     resizeObserver = False,
     chartContainer = False\<rparr>"

text \<open>
  \<open>prices\<close> after the \<open>forEach\<close> of \<open>initializeData\<close>: high, low, open, close of every
  point, in this order.
\<close>

definition pricesOf :: "CandlestickData list \<Rightarrow> rat list" where
  "pricesOf ps = concat (map (\<lambda>point. [high point, low point, open point, close point]) ps)"

text \<open>
  \<open>initializeData\<close>. \<open>toLocaleString\<close> is the formatting of the runtime's locale and is a
  parameter. The factor \<open>0.1\<close> is the rational one tenth.
\<close>

definition initializeData :: "(rat \<Rightarrow> string) \<Rightarrow> Component \<Rightarrow> Component" where
  "initializeData toLocaleString s =
     (let s1 = (if marketData s = None then s\<lparr>marketData := Some sampleMarketData\<rparr> else s)
      in case marketData s1 of
           None \<Rightarrow> s1
         | Some md \<Rightarrow>
             if length (dataPoints md) > 0 then
               (let prices = pricesOf (dataPoints md);
                    minDataPrice = Math_min prices;
                    maxDataPrice = Math_max prices;
                    padding = (maxDataPrice - minDataPrice) * (1 / 10);
                    c1 = (chartConfig s1)\<lparr>minPrice :=
                            of_int \<lfloor>(minDataPrice - padding) / 100\<rfloor> * 100\<rparr>;
                    c2 = c1\<lparr>maxPrice := of_int \<lceil>(maxDataPrice + padding) / 100\<rceil> * 100\<rparr>;
                    range = maxPrice c2 - minPrice c2;
                    step = range / 6;
                    c3 = c2\<lparr>yAxisLabels :=
                            map (\<lambda>i. toLocaleString (maxPrice c2 - of_nat i * step)) [0..<7]\<rparr>;
                    c4 = (if length (xAxisLabels c3) \<noteq> length (dataPoints md)
                          then c3\<lparr>xAxisLabels := map time (dataPoints md)\<rparr> else c3)
                in s1\<lparr>chartConfig := c4\<rparr>)
             else s1)"

text \<open>
  The expression \<open>createCandlestick\<close> evaluates for \<open>openY\<close>, \<open>closeY\<close>, \<open>highY\<close> and
  \<open>lowY\<close>: \<open>chartHeight - ((price - minPrice) / priceRange * chartHeight) + 20\<close>.
\<close>

definition toY :: "ChartConfig \<Rightarrow> rat \<Rightarrow> jsnum" where
  "toY c price =
     (let priceRange = maxPrice c - minPrice c
      in jadd (jsub (Fin (chartHeight c))
                (jmul (jdiv (Fin (price - minPrice c)) (Fin priceRange)) (Fin (chartHeight c))))
              (Fin 20))"

text \<open>\<open>this.marketData?.dataPoints.length || 1\<close>\<close>

definition pointCount :: "Component \<Rightarrow> nat" where
  "pointCount s =
     (case marketData s of
        None \<Rightarrow> 1
      | Some md \<Rightarrow> if length (dataPoints md) = 0 then 1 else length (dataPoints md))"

definition createCandlestick ::
  "Component \<Rightarrow> CandlestickData \<Rightarrow> nat \<Rightarrow> candlestick_el \<times> volume_el" where
  "createCandlestick s data index =
     (let c = chartConfig s;
          spacing = chartWidth c / of_nat (pointCount s);
          x = 20 + (of_nat index * spacing) + (spacing - candleWidth c) / 2;
          openY = toY c (open data);
          closeY = toY c (close data);
          highY = toY c (high data);
          lowY = toY c (low data);
          isGreen = (close data > open data);
          bodyTop = Math_min2 openY closeY;
          bodyHeight = jabs (jsub closeY openY)
      in (\<lparr>c_left = x,
           wick_top = highY,
           wick_height = jsub lowY highY,
           body_green = isGreen,
           body_top = bodyTop,
           body_height = Math_max2 bodyHeight (Fin 2),
           hover_data = data\<rparr>,
          \<lparr>v_left = x,
           v_height = volume data / 250 * 60\<rparr>))"

definition clearChart :: "Component \<Rightarrow> Component" where
  "clearChart s = s\<lparr>candlesticks := [], volumeBars := []\<rparr>"

text \<open>The \<open>forEach\<close> of \<open>renderChart\<close>, from the given index on.\<close>

fun renderEach :: "Component \<Rightarrow> CandlestickData list \<Rightarrow> nat \<Rightarrow> Component" where
  "renderEach s [] index = s"
| "renderEach s (data # rest) index =
     (let (candlestick, volumeBar) = createCandlestick s data index
      in renderEach
           (s\<lparr>candlesticks := candlesticks s @ [candlestick],
              volumeBars := volumeBars s @ [volumeBar]\<rparr>)
           rest (Suc index))"

definition renderChart :: "Component \<Rightarrow> Component" where
  "renderChart s =
     (case marketData s of
        None \<Rightarrow> s
      | Some md \<Rightarrow>
          if \<not> chartContainer s \<or> length (dataPoints md) = 0 then s
          else renderEach (clearChart s) (dataPoints md) 0)"

definition ngOnInit :: "(rat \<Rightarrow> string) \<Rightarrow> Component \<Rightarrow> Component" where
  "ngOnInit toLocaleString s = initializeData toLocaleString s"

text \<open>
  \<open>ngOnChanges\<close>; \<open>changed\<close> says that \<open>changes\<close> has an entry for \<open>marketData\<close> and
  \<open>firstChange\<close> is the flag of that entry. The framework has written the new value to
  the input field before it calls the hook, which \<open>marketDataChanged\<close> writes out.
\<close>

definition ngOnChanges :: "(rat \<Rightarrow> string) \<Rightarrow> bool \<Rightarrow> bool \<Rightarrow> Component \<Rightarrow> Component" where
  "ngOnChanges toLocaleString changed firstChange s =
     (if changed \<and> \<not> firstChange then
        (let s1 = initializeData toLocaleString s
         in if initialized s1 then renderChart s1 else s1)
      else s)"

definition marketDataChanged ::
  "(rat \<Rightarrow> string) \<Rightarrow> MarketData option \<Rightarrow> Component \<Rightarrow> Component" where
  "marketDataChanged toLocaleString md s =
     ngOnChanges toLocaleString True False (s\<lparr>marketData := md\<rparr>)"

text \<open>
  The callback \<open>setupResizeObserver\<close> registers, on the \<open>contentRect.width\<close> of each
  entry.
\<close>

fun resizeCallback :: "rat list \<Rightarrow> Component \<Rightarrow> Component" where
  "resizeCallback [] s = s"
| "resizeCallback (width # entries) s =
     resizeCallback entries
       (if width > 0
        then renderChart (s\<lparr>chartConfig := (chartConfig s)\<lparr>chartWidth := width - 80\<rparr>\<rparr>)
        else s)"

text \<open>\<open>hasResizeObserver\<close>: \<open>typeof ResizeObserver !== 'undefined'\<close>.\<close>

definition setupResizeObserver :: "bool \<Rightarrow> Component \<Rightarrow> Component" where
  "setupResizeObserver hasResizeObserver s =
     (if hasResizeObserver \<and> chartContainer s then s\<lparr>resizeObserver := True\<rparr> else s)"

text \<open>
  \<open>ngAfterViewInit\<close>; the view child \<open>chartContainer\<close> is resolved by the framework
  before the hook runs.
\<close>

definition ngAfterViewInit :: "bool \<Rightarrow> Component \<Rightarrow> Component" where
  "ngAfterViewInit hasResizeObserver s =
     setupResizeObserver hasResizeObserver (renderChart (s\<lparr>initialized := True\<rparr>))"

definition ngOnDestroy :: "Component \<Rightarrow> Component" where
  "ngOnDestroy s = clearChart s"

text \<open>\<open>onResize\<close>, on the \<open>clientWidth\<close> of the container element.\<close>

definition onResize :: "rat \<Rightarrow> Component \<Rightarrow> Component" where
  "onResize containerWidth s =
     (if \<not> resizeObserver s \<and> chartContainer s then
        (if containerWidth > 0
         then renderChart (s\<lparr>chartConfig := (chartConfig s)\<lparr>chartWidth := containerWidth - 80\<rparr>\<rparr>)
         else s)
      else s)"

section \<open>Double arithmetic\<close>

text \<open>
  The scale is computed in IEEE 754 double precision, and the rounding of the padding
  decides which hundred a bound snaps to. \<open>dbl\<close> rounds a rational to the nearest
  double, ties to the even significand: 53 significant bits, exponents from -1022 (below
  that the spacing of the subnormal numbers). Overflow to an infinity, at magnitudes
  from \<open>2 ^ 1024\<close>, is not modelled, nor is the sign of a zero. The arithmetic
  operations of the runtime are the exact operations followed by \<open>dbl\<close>.
\<close>

definition pow2 :: "int \<Rightarrow> rat" where
  "pow2 e = 2 powi e"

definition ilog2 :: "rat \<Rightarrow> int" where
  \<comment> \<open>for \<open>0 < x\<close>: the \<open>e\<close> with \<open>2 ^ e \<le> x < 2 ^ (e + 1)\<close>\<close>
  "ilog2 x = (if 1 \<le> x then bitlen \<lfloor>x\<rfloor> - 1 else - bitlen (\<lceil>1 / x\<rceil> - 1))"

definition roundHalfEven :: "rat \<Rightarrow> int" where
  "roundHalfEven q =
     (let f = \<lfloor>q\<rfloor>; r = q - of_int f
      in if r < 1 / 2 then f else if 1 / 2 < r then f + 1 else if even f then f else f + 1)"

definition ulp :: "rat \<Rightarrow> rat" where
  \<comment> \<open>the spacing of the doubles around a non-zero \<open>x\<close>\<close>
  "ulp x = pow2 (max (ilog2 \<bar>x\<bar>) (- 1022) - 52)"

definition dbl :: "rat \<Rightarrow> rat" where
  "dbl x = (if x = 0 then 0 else of_int (roundHalfEven (x / ulp x)) * ulp x)"

definition fadd :: "rat \<Rightarrow> rat \<Rightarrow> rat" where
  "fadd a b = dbl (a + b)"

definition fsub :: "rat \<Rightarrow> rat \<Rightarrow> rat" where
  "fsub a b = dbl (a - b)"

definition fmul :: "rat \<Rightarrow> rat \<Rightarrow> rat" where
  "fmul a b = dbl (a * b)"

definition fdiv :: "rat \<Rightarrow> rat \<Rightarrow> rat" where
  \<comment> \<open>for a divisor other than zero\<close>
  "fdiv a b = dbl (a / b)"

text \<open>
  \<open>initializeData\<close> with every arithmetic operation in double arithmetic and the
  literal \<open>0.1\<close> as the double nearest to one tenth; \<open>Math.min\<close>, \<open>Math.max\<close>,
  \<open>Math.floor\<close> and \<open>Math.ceil\<close> are exact on doubles. \<open>initializeData\<close> above is the
  same function with exact operations.
\<close>

definition initializeData_double :: "(rat \<Rightarrow> string) \<Rightarrow> Component \<Rightarrow> Component" where
  "initializeData_double toLocaleString s =
     (let s1 = (if marketData s = None then s\<lparr>marketData := Some sampleMarketData\<rparr> else s)
      in case marketData s1 of
           None \<Rightarrow> s1
         | Some md \<Rightarrow>
             if length (dataPoints md) > 0 then
               (let prices = pricesOf (dataPoints md);
                    minDataPrice = Math_min prices;
                    maxDataPrice = Math_max prices;
                    padding = fmul (fsub maxDataPrice minDataPrice) (dbl (1 / 10));
                    c1 = (chartConfig s1)\<lparr>minPrice :=
                            fmul (of_int \<lfloor>fdiv (fsub minDataPrice padding) 100\<rfloor>) 100\<rparr>;
                    c2 = c1\<lparr>maxPrice :=
                            fmul (of_int \<lceil>fdiv (fadd maxDataPrice padding) 100\<rceil>) 100\<rparr>;
                    range = fsub (maxPrice c2) (minPrice c2);
                    step = fdiv range 6;
                    c3 = c2\<lparr>yAxisLabels :=
                            map (\<lambda>i. toLocaleString (fsub (maxPrice c2) (fmul (of_nat i) step)))
                              [0..<7]\<rparr>;
                    c4 = (if length (xAxisLabels c3) \<noteq> length (dataPoints md)
                          then c3\<lparr>xAxisLabels := map time (dataPoints md)\<rparr> else c3)
                in s1\<lparr>chartConfig := c4\<rparr>)
             else s1)"

text \<open>A point with the given low and high, opening and closing at the low.\<close>

definition rangePoint :: "rat \<Rightarrow> rat \<Rightarrow> CandlestickData" where
  "rangePoint lo hi = \<lparr>time = ''t'', open = lo, high = hi, low = lo, close = lo, volume = 0\<rparr>"

definition is_double :: "rat \<Rightarrow> bool" where
  \<comment> \<open>the rationals that are finite doubles\<close>
  "is_double x \<longleftrightarrow> dbl x = x \<and> \<bar>x\<bar> < 2 ^ 1024"

section \<open>Notions the properties are stated with\<close>

text \<open>
  The smallest and the largest of the four price fields of all points, as sets: what
  \<open>minDataPrice\<close> and \<open>maxDataPrice\<close> are meant to be.
\<close>

definition priceSet :: "CandlestickData list \<Rightarrow> rat set" where
  "priceSet ps = (\<Union>d\<in>set ps. {open d, high d, low d, close d})"

definition rawMin :: "CandlestickData list \<Rightarrow> rat" where
  "rawMin ps = Min (priceSet ps)"

definition rawMax :: "CandlestickData list \<Rightarrow> rat" where
  "rawMax ps = Max (priceSet ps)"


text \<open>
  The configuration after the resize handlers have stored a new chart width.
\<close>

definition withChartWidth :: "rat \<Rightarrow> Component \<Rightarrow> Component" where
  "withChartWidth w s = s\<lparr>chartConfig := (chartConfig s)\<lparr>chartWidth := w\<rparr>\<rparr>"

subsection \<open>Concrete inputs\<close>

text \<open>
  A point whose four prices are all \<open>p\<close>, a point whose low lies above its high, a
  series around a list of points, a seven-point series with its own time labels, a
  formatter for the examples (no property depends on the formatter), and the hooks in
  the order the framework runs them when the component is mounted.
\<close>

definition pointAt :: "string \<Rightarrow> rat \<Rightarrow> CandlestickData" where
  "pointAt t p = \<lparr>time = t, open = p, high = p, low = p, close = p, volume = 0\<rparr>"

definition seriesOf :: "CandlestickData list \<Rightarrow> MarketData" where
  "seriesOf ps = \<lparr>
     dataPoints = ps,
     currentPrice = 0,
     priceChange = 0,
     trend = Flat,
     totalVolume = 0,
     periodHigh = 0,
     periodLow = 0,
     activeListings = 0,
     itemName = ''Item'',
     timePeriod = ''Period''\<rparr>"

definition invertedPoint :: CandlestickData where
  "invertedPoint = \<lparr>time = ''t'', open = 100, high = 100, low = 200, close = 200, volume = 0\<rparr>"

definition weekPoints :: "CandlestickData list" where
  "weekPoints = [pointAt ''Mon'' 1000, pointAt ''Tue'' 1010, pointAt ''Wed'' 1020,
     pointAt ''Thu'' 1030, pointAt ''Fri'' 1040, pointAt ''Sat'' 1050, pointAt ''Sun'' 1060]"

definition plainLabel :: "rat \<Rightarrow> string" where
  "plainLabel r = ''#''"

definition mounted :: "MarketData option \<Rightarrow> Component" where
  "mounted md =
     ngAfterViewInit True ((ngOnInit plainLabel (newComponent md))\<lparr>chartContainer := True\<rparr>)"

text \<open>
  The component mounted in a browser without \<open>ResizeObserver\<close>, where the
  window-resize handler is the one that runs; a one-point series with low 1011.9 and
  high 6130.9, as the doubles these literals denote.
\<close>

definition mountedFallback :: "MarketData option \<Rightarrow> Component" where
  "mountedFallback md =
     ngAfterViewInit False ((ngOnInit plainLabel (newComponent md))\<lparr>chartContainer := True\<rparr>)"

definition roundingSeries :: MarketData where
  "roundingSeries = seriesOf [rangePoint (dbl (10119 / 10)) (dbl (61309 / 10))]"

section \<open>Arithmetic of the scale\<close>

lemma Math_min_eq_Min: "xs \<noteq> [] \<Longrightarrow> Math_min xs = Min (set xs)"
  using Min.set_eq_fold [of "hd xs" "tl xs"] by (cases xs) simp_all

lemma Math_max_eq_Max: "xs \<noteq> [] \<Longrightarrow> Math_max xs = Max (set xs)"
  using Max.set_eq_fold [of "hd xs" "tl xs"] by (cases xs) simp_all

lemma set_pricesOf: "set (pricesOf ps) = priceSet ps"
  by (auto simp: pricesOf_def priceSet_def)

lemma pricesOf_nonempty: "ps \<noteq> [] \<Longrightarrow> pricesOf ps \<noteq> []"
  by (cases ps) (simp_all add: pricesOf_def)

lemma minDataPrice_eq: "ps \<noteq> [] \<Longrightarrow> Math_min (pricesOf ps) = rawMin ps"
  by (simp add: Math_min_eq_Min pricesOf_nonempty set_pricesOf rawMin_def)

lemma maxDataPrice_eq: "ps \<noteq> [] \<Longrightarrow> Math_max (pricesOf ps) = rawMax ps"
  by (simp add: Math_max_eq_Max pricesOf_nonempty set_pricesOf rawMax_def)

lemma finite_priceSet: "finite (priceSet ps)"
  by (simp add: priceSet_def)

lemma priceSet_nonempty: "ps \<noteq> [] \<Longrightarrow> priceSet ps \<noteq> {}"
  by (cases ps) (simp_all add: priceSet_def)






section \<open>What \<open>initializeData\<close> stores\<close>



lemma initializeData_xAxisLabels:
  assumes "marketData s = Some md" and "dataPoints md \<noteq> []"
  shows "xAxisLabels (chartConfig (initializeData fmt s)) =
           (if length (xAxisLabels (chartConfig s)) \<noteq> length (dataPoints md)
            then map time (dataPoints md) else xAxisLabels (chartConfig s))"
  using assms
  by (simp add: initializeData_def Let_def)


section \<open>What \<open>renderChart\<close> stores\<close>

lemma createCandlestick_cong:
  "chartConfig s = chartConfig s' \<Longrightarrow> marketData s = marketData s' \<Longrightarrow>
   createCandlestick s d i = createCandlestick s' d i"
  by (simp add: createCandlestick_def pointCount_def)

lemma renderEach_eq:
  "renderEach s ds i =
   s\<lparr>candlesticks := candlesticks s @ map (\<lambda>(j, d). fst (createCandlestick s d j)) (enumerate i ds),
     volumeBars := volumeBars s @ map (\<lambda>(j, d). snd (createCandlestick s d j)) (enumerate i ds)\<rparr>"
proof (induction ds arbitrary: s i)
  case Nil
  show ?case by simp
next
  case (Cons d ds)
  let ?s1 = "s\<lparr>candlesticks := candlesticks s @ [fst (createCandlestick s d i)],
                volumeBars := volumeBars s @ [snd (createCandlestick s d i)]\<rparr>"
  have same: "\<And>e j. createCandlestick ?s1 e j = createCandlestick s e j"
    by (rule createCandlestick_cong) simp_all
  have "renderEach s (d # ds) i = renderEach ?s1 ds (Suc i)"
    by (simp add: case_prod_beta)
  also have "\<dots> = ?s1\<lparr>candlesticks := candlesticks ?s1 @ map (\<lambda>(j, d). fst (createCandlestick ?s1 d j)) (enumerate (Suc i) ds),
     volumeBars := volumeBars ?s1 @ map (\<lambda>(j, d). snd (createCandlestick ?s1 d j)) (enumerate (Suc i) ds)\<rparr>"
    by (rule Cons.IH)
  also have "\<dots> = s\<lparr>candlesticks := candlesticks s @ map (\<lambda>(j, d). fst (createCandlestick s d j)) (enumerate i (d # ds)),
     volumeBars := volumeBars s @ map (\<lambda>(j, d). snd (createCandlestick s d j)) (enumerate i (d # ds))\<rparr>"
    by (simp add: same)
  finally show ?case .
qed

lemma renderChart_eq:
  assumes "marketData s = Some md" and "chartContainer s" and "dataPoints md \<noteq> []"
  shows "renderChart s =
    s\<lparr>candlesticks := map (\<lambda>(j, d). fst (createCandlestick s d j)) (enumerate 0 (dataPoints md)),
      volumeBars := map (\<lambda>(j, d). snd (createCandlestick s d j)) (enumerate 0 (dataPoints md))\<rparr>"
proof -
  have same: "\<And>e j. createCandlestick (clearChart s) e j = createCandlestick s e j"
    by (rule createCandlestick_cong) (simp_all add: clearChart_def)
  show ?thesis using assms
    by (simp add: renderChart_def renderEach_eq same) (simp add: clearChart_def)
qed

lemma renderChart_skip:
  "marketData s = None \<or> \<not> chartContainer s \<or> (\<exists>md. marketData s = Some md \<and> dataPoints md = [])
   \<Longrightarrow> renderChart s = s"
  by (auto simp: renderChart_def split: option.splits)

lemma renderChart_idem: "renderChart (renderChart s) = renderChart s"
proof (cases "\<exists>md. marketData s = Some md \<and> chartContainer s \<and> dataPoints md \<noteq> []")
  case True
  then obtain md where md: "marketData s = Some md" "chartContainer s" "dataPoints md \<noteq> []"
    by blast
  let ?r = "renderChart s"
  have r: "?r = s\<lparr>candlesticks := map (\<lambda>(j, d). fst (createCandlestick s d j)) (enumerate 0 (dataPoints md)),
      volumeBars := map (\<lambda>(j, d). snd (createCandlestick s d j)) (enumerate 0 (dataPoints md))\<rparr>"
    by (rule renderChart_eq [OF md])
  have md': "marketData ?r = Some md" "chartContainer ?r" by (simp_all add: r md)
  have same: "\<And>e j. createCandlestick ?r e j = createCandlestick s e j"
    by (rule createCandlestick_cong) (simp_all add: r)
  show ?thesis
    by (subst renderChart_eq [OF md' md(3)]) (simp add: same, simp add: r)
next
  case False
  then have "renderChart s = s" by (intro renderChart_skip) (cases "marketData s"; auto)
  then show ?thesis by simp
qed

lemma candlesticks_renderChart:
  assumes "marketData s = Some md" and "chartContainer s" and "dataPoints md \<noteq> []"
  shows "candlesticks (renderChart s) =
           map (\<lambda>(j, d). fst (createCandlestick s d j)) (enumerate 0 (dataPoints md))"
  by (simp add: renderChart_eq [OF assms])

lemma volumeBars_renderChart:
  assumes "marketData s = Some md" and "chartContainer s" and "dataPoints md \<noteq> []"
  shows "volumeBars (renderChart s) =
           map (\<lambda>(j, d). snd (createCandlestick s d j)) (enumerate 0 (dataPoints md))"
  by (simp add: renderChart_eq [OF assms])

section \<open>The price-to-pixel mapping\<close>

lemma toY_finite:
  "maxPrice c \<noteq> minPrice c \<Longrightarrow>
   toY c p = Fin (chartHeight c - (p - minPrice c) / (maxPrice c - minPrice c) * chartHeight c + 20)"
  by (simp add: toY_def jsub_def)

lemma toY_degenerate: "maxPrice c = minPrice c \<Longrightarrow> \<not> is_finite (toY c p)"
  by (simp add: toY_def jsub_def inf_of_sign_def)

lemma toY_antimono:
  assumes "minPrice c < maxPrice c" and "0 \<le> chartHeight c" and "p \<le> q"
  shows "jle (toY c q) (toY c p)"
proof -
  have r: "0 < maxPrice c - minPrice c" using assms(1) by simp
  have "(p - minPrice c) / (maxPrice c - minPrice c) \<le> (q - minPrice c) / (maxPrice c - minPrice c)"
    using assms(3) r by (simp add: divide_right_mono)
  then have "(p - minPrice c) / (maxPrice c - minPrice c) * chartHeight c
               \<le> (q - minPrice c) / (maxPrice c - minPrice c) * chartHeight c"
    using assms(2) by (rule mult_right_mono)
  then show ?thesis using assms(1) by (simp add: toY_finite)
qed

lemma resizeCallback_nonpositive:
  "\<forall>w\<in>set entries. w \<le> 0 \<Longrightarrow> resizeCallback entries s = s"
  by (induction entries arbitrary: s) simp_all

section \<open>Further facts about the scale and the elements\<close>








lemma hover_data_createCandlestick: "hover_data (fst (createCandlestick s d i)) = d"
  by (simp add: createCandlestick_def Let_def)

lemma map_hover_data:
  "map hover_data (map (\<lambda>(j, d). fst (createCandlestick s d j)) (enumerate i ds)) = ds"
  by (induction ds arbitrary: i) (simp_all add: hover_data_createCandlestick)

lemma in_candlesticks_renderChart:
  assumes "marketData s = Some md" and "chartContainer s" and "dataPoints md \<noteq> []"
    and "e \<in> set (candlesticks (renderChart s))"
  obtains j where "j < length (dataPoints md)"
    and "e = fst (createCandlestick s (dataPoints md ! j) j)"
proof -
  from assms(4) obtain p where p: "p \<in> set (enumerate 0 (dataPoints md))"
      and e: "e = fst (createCandlestick s (snd p) (fst p))"
    by (auto simp: candlesticks_renderChart [OF assms(1-3)])
  from p have "fst p < length (dataPoints md)" "dataPoints md ! fst p = snd p"
    by (simp_all add: in_set_enumerate_eq)
  with e that show ?thesis by simp
qed

lemma createCandlestick_body_height:
  assumes "maxPrice (chartConfig s) \<noteq> minPrice (chartConfig s)"
  shows "jle (Fin 2) (body_height (fst (createCandlestick s d i)))"
  using assms by (simp add: createCandlestick_def Let_def toY_finite jsub_def)

lemma createCandlestick_wick_height:
  assumes "minPrice (chartConfig s) < maxPrice (chartConfig s)"
    and "0 \<le> chartHeight (chartConfig s)" and "low d \<le> high d"
  shows "jle (Fin 0) (wick_height (fst (createCandlestick s d i)))"
proof -
  let ?c = "chartConfig s"
  have ne: "maxPrice ?c \<noteq> minPrice ?c" using assms(1) by simp
  have "jle (toY ?c (high d)) (toY ?c (low d))"
    by (rule toY_antimono [OF assms])
  then show ?thesis
    by (simp add: createCandlestick_def Let_def toY_finite [OF ne] jsub_def)
qed

lemma createCandlestick_wick_inverted:
  assumes "minPrice (chartConfig s) < maxPrice (chartConfig s)"
    and "0 < chartHeight (chartConfig s)" and "high d < low d"
  shows "\<not> jle (Fin 0) (wick_height (fst (createCandlestick s d i)))"
proof -
  let ?c = "chartConfig s"
  have ne: "maxPrice ?c \<noteq> minPrice ?c" using assms(1) by simp
  have r: "0 < maxPrice ?c - minPrice ?c" using assms(1) by simp
  have "(high d - minPrice ?c) / (maxPrice ?c - minPrice ?c)
          < (low d - minPrice ?c) / (maxPrice ?c - minPrice ?c)"
    using assms(3) r by (simp add: divide_strict_right_mono)
  then have "(high d - minPrice ?c) / (maxPrice ?c - minPrice ?c) * chartHeight ?c
               < (low d - minPrice ?c) / (maxPrice ?c - minPrice ?c) * chartHeight ?c"
    using assms(2) by (rule mult_strict_right_mono)
  then show ?thesis
    by (simp add: createCandlestick_def Let_def toY_finite [OF ne] jsub_def)
qed


lemma createCandlestick_y_frame:
  "wick_top (fst (createCandlestick (withChartWidth w s) d i)) = wick_top (fst (createCandlestick s d i))"
  "wick_height (fst (createCandlestick (withChartWidth w s) d i)) = wick_height (fst (createCandlestick s d i))"
  "body_top (fst (createCandlestick (withChartWidth w s) d i)) = body_top (fst (createCandlestick s d i))"
  "body_height (fst (createCandlestick (withChartWidth w s) d i)) = body_height (fst (createCandlestick s d i))"
  "body_green (fst (createCandlestick (withChartWidth w s) d i)) = body_green (fst (createCandlestick s d i))"
  by (simp_all add: createCandlestick_def Let_def withChartWidth_def toY_def)

lemma createCandlestick_c_left:
  assumes "marketData s = Some md" and "dataPoints md \<noteq> []"
  shows "c_left (fst (createCandlestick s d i)) =
           20 + of_nat i * (chartWidth (chartConfig s) / of_nat (length (dataPoints md)))
           + (chartWidth (chartConfig s) / of_nat (length (dataPoints md))
              - candleWidth (chartConfig s)) / 2"
  using assms by (simp add: createCandlestick_def Let_def pointCount_def)

section \<open>Facts about double rounding\<close>

lemma pow2_pos: "0 < pow2 e"
  by (simp add: pow2_def zero_less_power_int)

lemma pow2_add: "pow2 (a + b) = pow2 a * pow2 b"
  by (simp add: pow2_def power_int_add)

lemma pow2_nonneg_exp: "0 \<le> e \<Longrightarrow> pow2 e = 2 ^ nat e"
  by (simp add: pow2_def power_int_nonneg_exp)

lemma pow2_neg_exp: "e \<le> 0 \<Longrightarrow> pow2 e = 1 / 2 ^ nat (- e)"
  by (cases "e = 0") (simp_all add: pow2_def power_int_def inverse_eq_divide power_one_over)

lemma pow2_mono: "a \<le> b \<Longrightarrow> pow2 a \<le> pow2 b"
proof -
  assume "a \<le> b"
  then have "pow2 b = pow2 a * pow2 (b - a)" by (simp flip: pow2_add)
  moreover have "1 \<le> pow2 (b - a)" using \<open>a \<le> b\<close> by (simp add: pow2_nonneg_exp)
  ultimately show ?thesis using pow2_pos [of a] by simp
qed

lemma ilog2_bounds:
  assumes "0 < x"
  shows "pow2 (ilog2 x) \<le> x" and "x < pow2 (ilog2 x + 1)"
proof -
  have "pow2 (ilog2 x) \<le> x \<and> x < pow2 (ilog2 x + 1)"
  proof (cases "1 \<le> x")
    case True
    let ?n = "\<lfloor>x\<rfloor>"
    have n: "0 < ?n" using True by simp
    have b: "1 \<le> bitlen ?n" using n bitlen_eq_zero_iff [of ?n] bitlen_nonneg [of ?n] by linarith
    from bitlen_bounds [OF n]
    have lo: "2 ^ nat (bitlen ?n - 1) \<le> ?n" and hi: "?n < 2 ^ nat (bitlen ?n)" by simp_all
    have il: "ilog2 x = bitlen ?n - 1" using True by (simp add: ilog2_def)
    have "pow2 (ilog2 x) = of_int (2 ^ nat (bitlen ?n - 1))"
      using b by (simp add: il pow2_nonneg_exp)
    also have "\<dots> \<le> of_int ?n" by (rule iffD2 [OF of_int_le_iff lo])
    also have "\<dots> \<le> x" by (rule of_int_floor_le)
    finally have 1: "pow2 (ilog2 x) \<le> x" .
    from hi have "?n + 1 \<le> 2 ^ nat (bitlen ?n)" by simp
    then have "(of_int (?n + 1) :: rat) \<le> of_int (2 ^ nat (bitlen ?n))"
      by (rule iffD2 [OF of_int_le_iff])
    moreover have "x < of_int (?n + 1)" using floor_correct [of x] by blast
    moreover have "pow2 (ilog2 x + 1) = of_int (2 ^ nat (bitlen ?n))"
      using b by (simp add: il pow2_nonneg_exp)
    ultimately have 2: "x < pow2 (ilog2 x + 1)" by linarith
    from 1 2 show ?thesis by simp
  next
    case False
    let ?y = "1 / x"
    let ?m = "\<lceil>?y\<rceil> - 1"
    have y: "1 < ?y" using False assms by simp
    have m: "0 < ?m" using y by simp
    have b: "1 \<le> bitlen ?m" using m bitlen_eq_zero_iff [of ?m] bitlen_nonneg [of ?m] by linarith
    from bitlen_bounds [OF m]
    have lo: "2 ^ nat (bitlen ?m - 1) \<le> ?m" and hi: "?m < 2 ^ nat (bitlen ?m)" by simp_all
    have il: "ilog2 x = - bitlen ?m" using False by (simp add: ilog2_def)
    from hi have "\<lceil>?y\<rceil> \<le> 2 ^ nat (bitlen ?m)" by simp
    then have "?y \<le> of_int (2 ^ nat (bitlen ?m))" by (simp only: ceiling_le_iff)
    then have "?y \<le> 2 ^ nat (bitlen ?m)" by simp
    then have "1 / 2 ^ nat (bitlen ?m) \<le> x" using assms
      by (simp add: field_simps)

    then have 1: "pow2 (ilog2 x) \<le> x" using b by (simp add: il pow2_neg_exp)
    from lo have "2 ^ nat (bitlen ?m - 1) < \<lceil>?y\<rceil>" by simp
    then have "of_int (2 ^ nat (bitlen ?m - 1)) < ?y" by (simp only: less_ceiling_iff)
    then have "2 ^ nat (bitlen ?m - 1) < ?y" by simp
    then have "x < 1 / 2 ^ nat (bitlen ?m - 1)" using assms by (simp add: field_simps)
    moreover have "pow2 (- bitlen ?m + 1) = 1 / 2 ^ nat (bitlen ?m - 1)"
      using b pow2_neg_exp [of "- bitlen ?m + 1"] by simp
    ultimately have 2: "x < pow2 (ilog2 x + 1)" by (simp add: il)
    from 1 2 show ?thesis by simp
  qed
  then show "pow2 (ilog2 x) \<le> x" and "x < pow2 (ilog2 x + 1)" by simp_all
qed

lemma roundHalfEven_error: "\<bar>of_int (roundHalfEven q) - q\<bar> \<le> 1 / 2"
proof -
  define r where "r = q - of_int \<lfloor>q\<rfloor>"
  have r: "0 \<le> r" "r < 1" using floor_correct [of q] by (simp_all add: r_def)
  have q: "q = of_int \<lfloor>q\<rfloor> + r" by (simp add: r_def)
  consider "r < 1 / 2" | "1 / 2 < r" | "r = 1 / 2" by linarith
  then show ?thesis
  proof cases
    case 1
    then have "roundHalfEven q = \<lfloor>q\<rfloor>" by (simp add: roundHalfEven_def r_def)
    then show ?thesis using q r 1 by simp
  next
    case 2
    then have "roundHalfEven q = \<lfloor>q\<rfloor> + 1" by (simp add: roundHalfEven_def r_def)
    then have "of_int (roundHalfEven q) - q = 1 - r" using q by simp
    then show ?thesis using r 2 by simp
  next
    case 3
    then have "roundHalfEven q = \<lfloor>q\<rfloor> \<or> roundHalfEven q = \<lfloor>q\<rfloor> + 1"
      by (simp add: roundHalfEven_def r_def Let_def)
    then have "of_int (roundHalfEven q) - q = - r \<or> of_int (roundHalfEven q) - q = 1 - r"
      using q by auto
    then show ?thesis using 3 by auto
  qed
qed

lemma roundHalfEven_of_int: "roundHalfEven (of_int k) = k"
  by (simp add: roundHalfEven_def)

lemma roundHalfEven_mono_int: "q \<le> of_int k \<Longrightarrow> roundHalfEven q \<le> k"
  unfolding roundHalfEven_def Let_def
  by (auto simp: floor_le_iff)

lemma roundHalfEven_mono_int': "of_int k \<le> q \<Longrightarrow> k \<le> roundHalfEven q"
  unfolding roundHalfEven_def Let_def
  by (auto simp: le_floor_iff) linarith+

lemma ulp_pos: "0 < ulp x"
  by (simp add: ulp_def pow2_pos)

lemma dbl_error: "\<bar>dbl x - x\<bar> \<le> ulp x / 2"
proof (cases "x = 0")
  case True
  then show ?thesis using ulp_pos [of x] by (simp add: dbl_def)
next
  case False
  have "\<bar>of_int (roundHalfEven (x / ulp x)) - x / ulp x\<bar> * ulp x \<le> 1 / 2 * ulp x"
    using roundHalfEven_error [of "x / ulp x"] ulp_pos [of x] by (intro mult_right_mono) simp_all
  moreover have "\<bar>of_int (roundHalfEven (x / ulp x)) - x / ulp x\<bar> * ulp x = \<bar>dbl x - x\<bar>"
  proof -
    have "\<bar>of_int (roundHalfEven (x / ulp x)) - x / ulp x\<bar> * ulp x
            = \<bar>(of_int (roundHalfEven (x / ulp x)) - x / ulp x) * ulp x\<bar>"
      using ulp_pos [of x] by (intro abs_mult_pos) simp
    also have "(of_int (roundHalfEven (x / ulp x)) - x / ulp x) * ulp x = dbl x - x"
      using ulp_pos [of x] False by (simp add: dbl_def algebra_simps)
    finally show ?thesis .
  qed
  ultimately show ?thesis by simp
qed

lemma dbl_zero: "dbl 0 = 0"
  by (simp add: dbl_def)

lemma dbl_of_int_times_ulp: "dbl x = of_int (roundHalfEven (x / ulp x)) * ulp x"
  by (simp add: dbl_def roundHalfEven_def)

lemma ulp_le_64:
  assumes "\<bar>x\<bar> < 2 ^ 59"
  shows "ulp x \<le> 64"
proof -
  have "ilog2 \<bar>x\<bar> \<le> 58"
  proof (cases "x = 0")
    case True
    then show ?thesis using bitlen_nonneg [of "- 1"] by (simp add: ilog2_def)
  next
    case False
    then have pos: "0 < \<bar>x\<bar>" by simp
    show ?thesis
    proof (rule ccontr)
      assume "\<not> ilog2 \<bar>x\<bar> \<le> 58"
      then have "pow2 59 \<le> pow2 (ilog2 \<bar>x\<bar>)" by (intro pow2_mono) simp
      also have "\<dots> \<le> \<bar>x\<bar>" by (rule ilog2_bounds(1) [OF pos])
      finally show False using assms by (simp add: pow2_nonneg_exp)
    qed
  qed
  then have "max (ilog2 \<bar>x\<bar>) (- 1022) - 52 \<le> 6" by simp
  then have "ulp x \<le> pow2 6" unfolding ulp_def by (rule pow2_mono)
  then show ?thesis by (simp add: pow2_nonneg_exp)
qed

lemma dbl_not_whole_small:
  assumes "dbl y \<notin> \<int>"
  shows "\<bar>dbl y\<bar> < 2 ^ 52"
proof -
  have y0: "y \<noteq> 0" using assms by (auto simp: dbl_zero)
  then have pos: "0 < \<bar>y\<bar>" by simp
  define e where "e = max (ilog2 \<bar>y\<bar>) (- 1022)"
  have u: "ulp y = pow2 (e - 52)" by (simp add: ulp_def e_def)
  define n where "n = roundHalfEven (y / ulp y)"
  have d: "dbl y = of_int n * pow2 (e - 52)" by (simp add: dbl_of_int_times_ulp n_def u)
  have e51: "e \<le> 51"
  proof (rule ccontr)
    assume "\<not> e \<le> 51"
    then have "pow2 (e - 52) = of_int (2 ^ nat (e - 52))" by (simp add: pow2_nonneg_exp)
    then have "dbl y = of_int (n * 2 ^ nat (e - 52))" by (simp add: d)
    then have "dbl y \<in> \<int>" by (simp only: Ints_of_int)
    with assms show False by blast
  qed
  have "\<bar>y\<bar> < pow2 (ilog2 \<bar>y\<bar> + 1)" by (rule ilog2_bounds(2) [OF pos])
  also have "\<dots> \<le> pow2 (e + 1)" by (intro pow2_mono) (simp add: e_def)
  finally have ylt: "\<bar>y\<bar> < pow2 (e + 1)" .
  have p: "pow2 (e + 1) = 2 ^ 53 * pow2 (e - 52)"
    using pow2_add [of 53 "e - 52"] by (simp add: pow2_nonneg_exp add.commute)
  have upos: "0 < pow2 (e - 52)" by (rule pow2_pos)
  have A: "\<bar>y\<bar> / pow2 (e - 52) < 2 ^ 53"
    using ylt upos by (simp add: p pos_divide_less_eq)
  have B: "\<bar>y / pow2 (e - 52)\<bar> = \<bar>y\<bar> / pow2 (e - 52)"
    using upos by (simp add: abs_divide)
  have "\<bar>y / pow2 (e - 52)\<bar> < 2 ^ 53" unfolding B by (rule A)
  then have "y / pow2 (e - 52) \<le> 2 ^ 53" "- (2 ^ 53) \<le> y / pow2 (e - 52)"
    by linarith+
  then have q: "y / pow2 (e - 52) \<le> of_int (2 ^ 53)" "of_int (- (2 ^ 53)) \<le> y / pow2 (e - 52)"
    by simp_all
  have n1: "n \<le> 2 ^ 53" unfolding n_def u by (rule roundHalfEven_mono_int [OF q(1)])
  have n2: "- (2 ^ 53) \<le> n" unfolding n_def u by (rule roundHalfEven_mono_int' [OF q(2)])
  have "\<bar>n\<bar> \<le> 2 ^ 53" using n1 n2 by simp
  then have "(of_int \<bar>n\<bar> :: rat) \<le> of_int (2 ^ 53)" by (rule iffD2 [OF of_int_le_iff])
  then have "\<bar>of_int n :: rat\<bar> \<le> 2 ^ 53" by simp
  then have "\<bar>of_int n :: rat\<bar> * pow2 (e - 52) \<le> 2 ^ 53 * pow2 (e - 52)"
    using upos by (intro mult_right_mono) simp_all
  moreover have "\<bar>dbl y\<bar> = \<bar>of_int n :: rat\<bar> * pow2 (e - 52)"
    using upos by (simp add: d abs_mult)
  ultimately have "\<bar>dbl y\<bar> \<le> pow2 (e + 1)" by (simp add: p)
  also have "\<dots> \<le> pow2 52" using e51 by (intro pow2_mono) simp
  finally have le: "\<bar>dbl y\<bar> \<le> 2 ^ 52" by (simp add: pow2_nonneg_exp)
  have "\<bar>dbl y\<bar> \<noteq> 2 ^ 52"
  proof
    assume "\<bar>dbl y\<bar> = 2 ^ 52"
    then have "dbl y = of_int (2 ^ 52) \<or> dbl y = of_int (- (2 ^ 52))"
      by (simp add: abs_if split: if_splits) 
    then have "dbl y \<in> \<int>" using Ints_of_int by metis
    with assms show False by blast
  qed
  with le show ?thesis by simp
qed

lemma snap_hundreds_distinct:
  assumes "(q::rat) \<notin> \<int>" and "\<bar>q\<bar> < 2 ^ 52"
  shows "fmul (of_int \<lfloor>q\<rfloor>) 100 < fmul (of_int \<lceil>q\<rceil>) 100"
proof -
  let ?k = "\<lfloor>q\<rfloor>"
  have c: "\<lceil>q\<rceil> = ?k + 1"
    using assms(1) by (metis Ints_of_int ceiling_altdef)
  have "of_int (- (2 ^ 52)) \<le> q" "q \<le> of_int (2 ^ 52)"
    using assms(2) by (simp_all add: abs_less_iff)
  then have k: "- (2 ^ 52) \<le> ?k" "?k + 1 \<le> 2 ^ 52 + 1"
    by (simp_all only: le_floor_iff floor_le_iff add_le_cancel_right)
  have k2: "?k < 2 ^ 52"
  proof -
    have "of_int ?k \<le> q" by (rule of_int_floor_le)
    also have "q < 2 ^ 52" using assms(2) by simp
    finally have "(of_int ?k :: rat) < of_int (2 ^ 52)" by simp
    then show ?thesis by (simp only: of_int_less_iff)
  qed
  let ?a = "of_int ?k * 100 :: rat" and ?b = "of_int (?k + 1) * 100 :: rat"
  have ka: "\<bar>of_int ?k :: rat\<bar> \<le> 2 ^ 52"
  proof -
    have "\<bar>?k\<bar> \<le> 2 ^ 52" using k(1) k2 by linarith
    then have "(of_int \<bar>?k\<bar> :: rat) \<le> of_int (2 ^ 52)" by (rule iffD2 [OF of_int_le_iff])
    then show ?thesis by simp
  qed
  have kb: "\<bar>of_int (?k + 1) :: rat\<bar> \<le> 2 ^ 52"
  proof -
    have "\<bar>?k + 1\<bar> \<le> 2 ^ 52" using k(1) k2 by linarith
    then have "(of_int \<bar>?k + 1\<bar> :: rat) \<le> of_int (2 ^ 52)" by (rule iffD2 [OF of_int_le_iff])
    then show ?thesis by simp
  qed
  have "\<bar>?a\<bar> = \<bar>of_int ?k :: rat\<bar> * 100" by (simp add: abs_mult)
  then have a: "\<bar>?a\<bar> < 2 ^ 59" using ka by simp
  have "\<bar>?b\<bar> = \<bar>of_int (?k + 1) :: rat\<bar> * 100" by (simp only: abs_mult abs_numeral)
  then have b: "\<bar>?b\<bar> < 2 ^ 59" using kb by simp
  have ea: "\<bar>dbl ?a - ?a\<bar> \<le> 32"
    using dbl_error [of ?a] ulp_le_64 [OF a] by simp
  have eb: "\<bar>dbl ?b - ?b\<bar> \<le> 32"
    using dbl_error [of ?b] ulp_le_64 [OF b] by simp
  have "?b = ?a + 100" by (simp add: algebra_simps)
  with ea eb have "dbl ?a < dbl ?b" by (simp add: abs_le_iff)
  then show ?thesis by (simp add: fmul_def c)
qed

lemma snap_hundreds_equal_iff:
  "fmul (of_int \<lfloor>fdiv p 100\<rfloor>) 100 = fmul (of_int \<lceil>fdiv p 100\<rceil>) 100 \<longleftrightarrow> fdiv p 100 \<in> \<int>"
proof
  assume eq: "fmul (of_int \<lfloor>fdiv p 100\<rfloor>) 100 = fmul (of_int \<lceil>fdiv p 100\<rceil>) 100"
  show "fdiv p 100 \<in> \<int>"
  proof (rule ccontr)
    assume n: "fdiv p 100 \<notin> \<int>"
    then have "\<bar>fdiv p 100\<bar> < 2 ^ 52" unfolding fdiv_def by (rule dbl_not_whole_small)
    from snap_hundreds_distinct [OF n this] eq show False by simp
  qed
next
  assume "fdiv p 100 \<in> \<int>"
  then obtain k :: int where "fdiv p 100 = of_int k" by (rule Ints_cases)
  then show "fmul (of_int \<lfloor>fdiv p 100\<rfloor>) 100 = fmul (of_int \<lceil>fdiv p 100\<rceil>) 100" by simp
qed

lemma initializeData_double_scale:
  assumes "marketData s = Some md" and "dataPoints md \<noteq> []"
  shows "minPrice (chartConfig (initializeData_double fmt s)) =
           fmul (of_int \<lfloor>fdiv (fsub (rawMin (dataPoints md))
             (fmul (fsub (rawMax (dataPoints md)) (rawMin (dataPoints md))) (dbl (1 / 10)))) 100\<rfloor>) 100"
    and "maxPrice (chartConfig (initializeData_double fmt s)) =
           fmul (of_int \<lceil>fdiv (fadd (rawMax (dataPoints md))
             (fmul (fsub (rawMax (dataPoints md)) (rawMin (dataPoints md))) (dbl (1 / 10)))) 100\<rceil>) 100"
  using assms
  by (simp_all add: initializeData_double_def Let_def minDataPrice_eq maxDataPrice_eq)

section \<open>The chart height is never assigned\<close>

lemma chartHeight_newComponent: "chartHeight (chartConfig (newComponent md)) = 360"
  by (simp add: newComponent_def initialChartConfig_def)

lemma chartHeight_initializeData:
  "chartHeight (chartConfig (initializeData fmt s)) = chartHeight (chartConfig s)"
  by (simp add: initializeData_def Let_def split: option.splits)

lemma chartConfig_renderChart: "chartConfig (renderChart s) = chartConfig s"
  by (simp add: renderChart_def renderEach_eq clearChart_def split: option.splits)

lemma chartHeight_ngOnChanges:
  "chartHeight (chartConfig (ngOnChanges fmt changed firstChange s)) = chartHeight (chartConfig s)"
  by (simp add: ngOnChanges_def Let_def chartConfig_renderChart chartHeight_initializeData)

lemma chartHeight_ngAfterViewInit:
  "chartHeight (chartConfig (ngAfterViewInit b s)) = chartHeight (chartConfig s)"
  by (simp add: ngAfterViewInit_def setupResizeObserver_def chartConfig_renderChart)

lemma chartHeight_resizeCallback:
  "chartHeight (chartConfig (resizeCallback entries s)) = chartHeight (chartConfig s)"
  by (induction entries arbitrary: s) (simp_all add: chartConfig_renderChart)

lemma chartHeight_onResize:
  "chartHeight (chartConfig (onResize w s)) = chartHeight (chartConfig s)"
  by (simp add: onResize_def chartConfig_renderChart)

lemma chartHeight_ngOnDestroy:
  "chartHeight (chartConfig (ngOnDestroy s)) = chartHeight (chartConfig s)"
  by (simp add: ngOnDestroy_def clearChart_def)

section \<open>Degenerate price range\<close>

text \<open>
  C1. Claimed: when the computed scale has \<open>maxPrice = minPrice\<close>, the price-to-pixel
  mapping does not divide by zero and sends every price to the midpoint
  \<open>chartHeight / 2 + 20\<close>, a finite value. The component has no such guard. For the
  one-point series with all four prices 100 the scale is \<open>minPrice = maxPrice = 100\<close>,
  \<open>priceRange\<close> is 0, and \<open>createCandlestick\<close> evaluates \<open>0 / 0\<close>: the pixel position of
  the price 100 is NaN and not the midpoint 200, a price off the scale maps to an
  infinity, and every vertical style of the candlestick is NaN. The division of
  \<open>chartWidth\<close> by the number of points in the same function is guarded
  (\<open>length || 1\<close>); the division by \<open>priceRange\<close> is not.
\<close>

theorem flat_series_toY_not_finite:
  "minPrice (chartConfig (initializeData fmt (newComponent (Some (seriesOf [pointAt ''t'' 100]))))) = 100
   \<and> maxPrice (chartConfig (initializeData fmt (newComponent (Some (seriesOf [pointAt ''t'' 100]))))) = 100
   \<and> toY (chartConfig (initializeData fmt (newComponent (Some (seriesOf [pointAt ''t'' 100]))))) 100 = NaN
   \<and> toY (chartConfig (initializeData fmt (newComponent (Some (seriesOf [pointAt ''t'' 100]))))) 100
       \<noteq> Fin (360 / 2 + 20)
   \<and> toY (chartConfig (initializeData fmt (newComponent (Some (seriesOf [pointAt ''t'' 100]))))) 101 = NegInf
   \<and> fst (createCandlestick
            (initializeData fmt (newComponent (Some (seriesOf [pointAt ''t'' 100]))))
            (pointAt ''t'' 100) 0)
       = \<lparr>c_left = 530, wick_top = NaN, wick_height = NaN, body_green = False,
          body_top = NaN, body_height = NaN, hover_data = pointAt ''t'' 100\<rparr>"
  by (simp add: initializeData_def newComponent_def seriesOf_def pointAt_def pricesOf_def
      Let_def initialChartConfig_def toY_def jsub_def inf_of_sign_def createCandlestick_def
      pointCount_def)

section \<open>Resize\<close>

lemma container_width_nonpositive_ignored:
  assumes "\<forall>w\<in>set entries. w \<le> 0" and "containerWidth \<le> 0"
  shows "resizeCallback entries s = s \<and> onResize containerWidth s = s"
  using assms by (simp add: resizeCallback_nonpositive onResize_def)

text \<open>
  C7. Claimed: an update that would make the viewport width zero or negative is
  ignored, and the chart width and the last layout are kept. Both handlers test the
  width of the container and then store that width minus 80 as the chart width, so only
  a container width of zero or less is ignored (\<open>container_width_nonpositive_ignored\<close>).
  A container 40 wide passes the test: on the mounted component the resize-observer
  callback stores the chart width -40 and lays the chart out again, with a negative
  spacing, and in a browser without \<open>ResizeObserver\<close> the window-resize handler does
  the same.
\<close>

theorem narrow_container_stores_nonpositive_width:
  "chartWidth (chartConfig (mounted None)) = 1040
   \<and> chartWidth (chartConfig (resizeCallback [40] (mounted None))) = - 40
   \<and> map c_left (candlesticks (mounted None))
       = [590 / 7, 1630 / 7, 2670 / 7, 530, 4750 / 7, 5790 / 7, 6830 / 7]
   \<and> map c_left (candlesticks (resizeCallback [40] (mounted None)))
       = [50 / 7, 10 / 7, - 30 / 7, - 10, - 110 / 7, - 150 / 7, - 190 / 7]
   \<and> resizeCallback [40] (mounted None) \<noteq> mounted None
   \<and> resizeObserver (mountedFallback None) = False
   \<and> chartWidth (chartConfig (mountedFallback None)) = 1040
   \<and> chartWidth (chartConfig (onResize 40 (mountedFallback None))) = - 40
   \<and> onResize 40 (mountedFallback None) \<noteq> mountedFallback None"
  by code_simp

section \<open>Purity of the layout\<close>

text \<open>
  C9. The geometry is a function of the series, the scale and the viewport alone. The
  elements \<open>createCandlestick\<close> builds depend on the component only through
  \<open>marketData\<close> and \<open>chartConfig\<close>; two components that agree on these and have a
  container and a non-empty series get the same candlesticks and volume bars from
  \<open>renderChart\<close>, whatever elements they held before; and rendering a second time
  changes nothing.
\<close>

theorem layout_pure_idempotent:
  "renderChart (renderChart s) = renderChart s
   \<and> (marketData s' = marketData s \<and> chartConfig s' = chartConfig s
        \<longrightarrow> createCandlestick s' d i = createCandlestick s d i)
   \<and> (marketData s' = marketData s \<and> chartConfig s' = chartConfig s
        \<and> chartContainer s \<and> chartContainer s'
        \<and> marketData s = Some md \<and> dataPoints md \<noteq> []
        \<longrightarrow> candlesticks (renderChart s') = candlesticks (renderChart s)
            \<and> volumeBars (renderChart s') = volumeBars (renderChart s))"
proof (intro conjI impI)
  show "renderChart (renderChart s) = renderChart s" by (rule renderChart_idem)
next
  assume "marketData s' = marketData s \<and> chartConfig s' = chartConfig s"
  then show "createCandlestick s' d i = createCandlestick s d i"
    by (intro createCandlestick_cong) simp_all
next
  assume a: "marketData s' = marketData s \<and> chartConfig s' = chartConfig s
        \<and> chartContainer s \<and> chartContainer s'
        \<and> marketData s = Some md \<and> dataPoints md \<noteq> []"
  then have same: "\<And>e j. createCandlestick s' e j = createCandlestick s e j"
    by (intro createCandlestick_cong) simp_all
  from a have s: "marketData s = Some md" "chartContainer s" "dataPoints md \<noteq> []" by simp_all
  from a have s': "marketData s' = Some md" "chartContainer s'" by simp_all
  show "candlesticks (renderChart s') = candlesticks (renderChart s)"
    by (simp add: candlesticks_renderChart [OF s] candlesticks_renderChart [OF s' s(3)] same)
  show "volumeBars (renderChart s') = volumeBars (renderChart s)"
    by (simp add: volumeBars_renderChart [OF s] volumeBars_renderChart [OF s' s(3)] same)
qed

theorem layout_pure_idempotent_witness:
  "marketData ((mounted None)\<lparr>candlesticks := [], initialized := False\<rparr>) = marketData (mounted None)
   \<and> chartConfig ((mounted None)\<lparr>candlesticks := [], initialized := False\<rparr>) = chartConfig (mounted None)
   \<and> chartContainer (mounted None)
   \<and> chartContainer ((mounted None)\<lparr>candlesticks := [], initialized := False\<rparr>)
   \<and> marketData (mounted None) = Some sampleMarketData
   \<and> dataPoints sampleMarketData \<noteq> []
   \<and> candlesticks (renderChart ((mounted None)\<lparr>candlesticks := [], initialized := False\<rparr>))
       = candlesticks (renderChart (mounted None))
   \<and> renderChart (renderChart (mounted None)) = renderChart (mounted None)"
proof -
  have h: "marketData ((mounted None)\<lparr>candlesticks := [], initialized := False\<rparr>) = marketData (mounted None)
     \<and> chartConfig ((mounted None)\<lparr>candlesticks := [], initialized := False\<rparr>) = chartConfig (mounted None)
     \<and> chartContainer (mounted None)
     \<and> chartContainer ((mounted None)\<lparr>candlesticks := [], initialized := False\<rparr>)
     \<and> marketData (mounted None) = Some sampleMarketData
     \<and> dataPoints sampleMarketData \<noteq> []"
    by code_simp
  show ?thesis
    using h layout_pure_idempotent
      [of "mounted None" "(mounted None)\<lparr>candlesticks := [], initialized := False\<rparr>" _ _ sampleMarketData]
    by blast
qed

section \<open>Labels of the time axis\<close>

text \<open>
  C8. Claimed: after every data change the x-axis labels are the \<open>time\<close> fields of the
  points, also when the new series is as long as the previous one. \<open>initializeData\<close>
  replaces the labels only when their number differs from the number of points. After
  the component has been mounted with the built-in data (seven points), a change to a
  seven-point series labelled Mon to Sun lays out the new points and keeps the labels
  of the old ones.
\<close>

theorem same_length_series_keeps_old_labels:
  "xAxisLabels (chartConfig (marketDataChanged plainLabel (Some (seriesOf weekPoints)) (mounted None)))
     = [''6h ago'', ''5h ago'', ''4h ago'', ''3h ago'', ''2h ago'', ''1h ago'', ''Now'']
   \<and> map time weekPoints = [''Mon'', ''Tue'', ''Wed'', ''Thu'', ''Fri'', ''Sat'', ''Sun'']
   \<and> map hover_data
        (candlesticks (marketDataChanged plainLabel (Some (seriesOf weekPoints)) (mounted None)))
     = weekPoints"
  by code_simp

section \<open>Missing data\<close>

text \<open>
  C2, as claimed: a null input and an empty series are both replaced by the built-in
  data, so a layout always yields seven shapes. This fails for the empty series:
  \<open>initializeData\<close> substitutes the built-in data only for a null \<open>marketData\<close>, and
  \<open>renderChart\<close> returns early on an empty \<open>dataPoints\<close>. A component mounted with an
  empty series keeps it and attaches no element.
\<close>

theorem empty_series_not_replaced:
  "marketData (mounted (Some (seriesOf []))) = Some (seriesOf [])
   \<and> marketData (mounted (Some (seriesOf []))) \<noteq> Some sampleMarketData
   \<and> length (candlesticks (mounted (Some (seriesOf [])))) \<noteq> 7
   \<and> candlesticks (mounted (Some (seriesOf []))) = []"
  by code_simp

text \<open>
  C2, amended: for a null input \<open>initializeData\<close> substitutes the built-in data, and the
  layout that follows attaches exactly seven candlesticks, one per built-in point in
  order, so their closing prices are 1200, 1230, 1210, 980, 1050, 1180, 1247. An empty
  series is not replaced: \<open>initializeData\<close> and \<open>renderChart\<close> leave the component as
  it is.
\<close>

theorem null_input_uses_sample_data:
  "(marketData s = None \<and> chartContainer s \<longrightarrow>
      marketData (initializeData fmt s) = Some sampleMarketData
      \<and> length (candlesticks (renderChart (initializeData fmt s))) = 7
      \<and> map hover_data (candlesticks (renderChart (initializeData fmt s)))
          = dataPoints sampleMarketData
      \<and> map (\<lambda>e. close (hover_data e)) (candlesticks (renderChart (initializeData fmt s)))
          = [1200, 1230, 1210, 980, 1050, 1180, 1247])
   \<and> (marketData s = Some md \<and> dataPoints md = [] \<longrightarrow>
        initializeData fmt s = s \<and> renderChart (initializeData fmt s) = s)"
proof (intro conjI impI)
  assume a: "marketData s = None \<and> chartContainer s"
  let ?s1 = "initializeData fmt s"
  have ne: "dataPoints sampleMarketData \<noteq> []" by (simp add: sampleMarketData_def)
  have len: "length (dataPoints sampleMarketData) > 0" using ne by simp
  show md: "marketData ?s1 = Some sampleMarketData"
    using a len by (simp add: initializeData_def Let_def)
  have cont: "chartContainer ?s1"
    using a len by (simp add: initializeData_def Let_def)
  have hov: "map hover_data (candlesticks (renderChart ?s1)) = dataPoints sampleMarketData"
    by (simp only: candlesticks_renderChart [OF md cont ne] map_hover_data)
  show "map hover_data (candlesticks (renderChart ?s1)) = dataPoints sampleMarketData"
    by (rule hov)
  have "length (map hover_data (candlesticks (renderChart ?s1))) = 7"
    by (simp only: hov) (simp add: sampleMarketData_def)
  then show "length (candlesticks (renderChart ?s1)) = 7" by simp
  have "map (\<lambda>e. close (hover_data e)) (candlesticks (renderChart ?s1))
          = map close (map hover_data (candlesticks (renderChart ?s1)))"
    by simp
  also have "\<dots> = [1200, 1230, 1210, 980, 1050, 1180, 1247]"
    by (simp only: hov) (simp add: sampleMarketData_def)
  finally show "map (\<lambda>e. close (hover_data e)) (candlesticks (renderChart ?s1))
          = [1200, 1230, 1210, 980, 1050, 1180, 1247]" .
next
  assume a: "marketData s = Some md \<and> dataPoints md = []"
  then show i: "initializeData fmt s = s" by (simp add: initializeData_def)
  from a show "renderChart (initializeData fmt s) = s"
    by (simp add: i renderChart_def)
qed

theorem null_input_uses_sample_data_witness:
  "marketData ((newComponent None)\<lparr>chartContainer := True\<rparr>) = None
   \<and> chartContainer ((newComponent None)\<lparr>chartContainer := True\<rparr>)
   \<and> length (candlesticks (renderChart
        (initializeData plainLabel ((newComponent None)\<lparr>chartContainer := True\<rparr>)))) = 7
   \<and> marketData (newComponent (Some (seriesOf []))) = Some (seriesOf [])
   \<and> dataPoints (seriesOf []) = []
   \<and> renderChart (initializeData plainLabel (newComponent (Some (seriesOf []))))
       = newComponent (Some (seriesOf []))"
proof -
  have h1: "marketData ((newComponent None)\<lparr>chartContainer := True\<rparr>) = None
     \<and> chartContainer ((newComponent None)\<lparr>chartContainer := True\<rparr>)"
    by (simp add: newComponent_def)
  have h2: "marketData (newComponent (Some (seriesOf []))) = Some (seriesOf [])
     \<and> dataPoints (seriesOf []) = []"
    by (simp add: newComponent_def seriesOf_def)
  show ?thesis
    using h1 h2
      null_input_uses_sample_data [of "(newComponent None)\<lparr>chartContainer := True\<rparr>" plainLabel]
      null_input_uses_sample_data [of "newComponent (Some (seriesOf []))" plainLabel "seriesOf []"]
    by blast
qed

section \<open>The price scale\<close>

text \<open>
  The rounding of the padding changes the hundred a bound snaps to. For low 1011.9 and
  high 6130.9 the padding is computed as 511.90000000000003, the difference
  \<open>1011.9 - padding\<close> lies just below 500, and \<open>minPrice\<close> is 400; with exact
  operations it is 500.
\<close>

lemma rounded_padding_changes_the_hundred:
  "minPrice (chartConfig (initializeData_double plainLabel (newComponent (Some roundingSeries)))) = 400
   \<and> minPrice (chartConfig (initializeData plainLabel (newComponent (Some roundingSeries)))) = 500
   \<and> minPrice (chartConfig (initializeData_double plainLabel (newComponent
        (Some (seriesOf [rangePoint (dbl (599 / 10)) (dbl (6589 / 10))]))))) = - 100
   \<and> minPrice (chartConfig (initializeData_double plainLabel (newComponent
        (Some (seriesOf [rangePoint (dbl (1 / 10)) (dbl (11 / 10))]))))) = 0"
  by code_simp

text \<open>
  C3, as claimed: for a flat series the padding is 0 and \<open>minPrice\<close> equals \<open>maxPrice\<close>.
  The second part fails: the floor and the ceiling of the same number differ unless the
  number is whole. For the one-point series with all four prices 150 the scale is
  \<open>minPrice = 100\<close>, \<open>maxPrice = 200\<close>.
\<close>

theorem flat_series_scale_not_degenerate:
  "rawMax [pointAt ''t'' 150] = rawMin [pointAt ''t'' 150]
   \<and> minPrice (chartConfig (initializeData_double plainLabel (newComponent (Some (seriesOf [pointAt ''t'' 150]))))) = 100
   \<and> maxPrice (chartConfig (initializeData_double plainLabel (newComponent (Some (seriesOf [pointAt ''t'' 150]))))) = 200
   \<and> minPrice (chartConfig (initializeData_double plainLabel (newComponent (Some (seriesOf [pointAt ''t'' 150])))))
       \<noteq> maxPrice (chartConfig (initializeData_double plainLabel (newComponent (Some (seriesOf [pointAt ''t'' 150])))))"
  by code_simp

text \<open>
  C3, amended: for every non-empty series of doubles, with \<open>rawMin\<close> and \<open>rawMax\<close> the
  smallest and the largest of all four price fields of all points and every operation
  in double arithmetic, \<open>padding = (rawMax - rawMin) * 0.10\<close>,
  \<open>minPrice = floor((rawMin - padding) / 100) * 100\<close> and
  \<open>maxPrice = ceil((rawMax + padding) / 100) * 100\<close>. For a flat series the padding is
  0, and \<open>minPrice\<close> and \<open>maxPrice\<close> are the floor and the ceiling of the same quotient
  \<open>price / 100\<close>, times 100: they are equal exactly when that quotient, as computed, is
  a whole number (price 100), and differ otherwise (price 150: 100 and 200).
\<close>

theorem scale_formula:
  assumes "marketData s = Some md" and "dataPoints md \<noteq> []"
    and "\<forall>p\<in>priceSet (dataPoints md). is_double p"
  shows
    "let rmin = rawMin (dataPoints md);
         rmax = rawMax (dataPoints md);
         padding = fmul (fsub rmax rmin) (dbl (1 / 10));
         c = chartConfig (initializeData_double fmt s)
     in minPrice c = fmul (of_int \<lfloor>fdiv (fsub rmin padding) 100\<rfloor>) 100
        \<and> maxPrice c = fmul (of_int \<lceil>fdiv (fadd rmax padding) 100\<rceil>) 100
        \<and> (rmax = rmin \<longrightarrow>
             padding = 0
             \<and> minPrice c = fmul (of_int \<lfloor>fdiv rmin 100\<rfloor>) 100
             \<and> maxPrice c = fmul (of_int \<lceil>fdiv rmin 100\<rceil>) 100
             \<and> (minPrice c = maxPrice c \<longleftrightarrow> fdiv rmin 100 \<in> \<int>))"
proof -
  let ?c = "chartConfig (initializeData_double fmt s)"
  let ?lo = "rawMin (dataPoints md)" and ?hi = "rawMax (dataPoints md)"
  let ?pad = "fmul (fsub ?hi ?lo) (dbl (1 / 10))"
  note sc = initializeData_double_scale [OF assms(1,2), of fmt]
  have "?lo \<in> priceSet (dataPoints md)"
    unfolding rawMin_def by (rule Min_in [OF finite_priceSet priceSet_nonempty [OF assms(2)]])
  with assms(3) have d: "dbl ?lo = ?lo" by (simp add: is_double_def)
  have pad: "?pad = 0" if "?hi = ?lo"
    using that by (simp add: fmul_def fsub_def dbl_zero)
  have flat: "minPrice ?c = fmul (of_int \<lfloor>fdiv ?lo 100\<rfloor>) 100
              \<and> maxPrice ?c = fmul (of_int \<lceil>fdiv ?lo 100\<rceil>) 100" if "?hi = ?lo"
    using that d by (simp add: sc fmul_def fsub_def fadd_def dbl_zero)
  have eq: "minPrice ?c = maxPrice ?c \<longleftrightarrow> fdiv ?lo 100 \<in> \<int>" if "?hi = ?lo"
    using flat [OF that] snap_hundreds_equal_iff [of ?lo] by simp
  show ?thesis
    unfolding Let_def using sc pad flat eq by blast
qed

theorem scale_formula_witness:
  "marketData (newComponent (Some roundingSeries)) = Some roundingSeries
   \<and> dataPoints roundingSeries \<noteq> []
   \<and> list_all is_double (pricesOf (dataPoints roundingSeries))
   \<and> minPrice (chartConfig (initializeData_double plainLabel (newComponent (Some roundingSeries)))) = 400
   \<and> maxPrice (chartConfig (initializeData_double plainLabel (newComponent (Some roundingSeries)))) = 6700
   \<and> marketData (newComponent (Some (seriesOf [pointAt ''t'' 150]))) = Some (seriesOf [pointAt ''t'' 150])
   \<and> dataPoints (seriesOf [pointAt ''t'' 150]) \<noteq> []
   \<and> list_all is_double (pricesOf (dataPoints (seriesOf [pointAt ''t'' 150])))
   \<and> rawMax (dataPoints (seriesOf [pointAt ''t'' 150])) = rawMin (dataPoints (seriesOf [pointAt ''t'' 150]))
   \<and> fdiv (rawMin (dataPoints (seriesOf [pointAt ''t'' 150]))) 100 \<notin> \<int>
   \<and> minPrice (chartConfig (initializeData_double plainLabel (newComponent (Some (seriesOf [pointAt ''t'' 150])))))
       \<noteq> maxPrice (chartConfig (initializeData_double plainLabel (newComponent (Some (seriesOf [pointAt ''t'' 150])))))"
proof -
  have h1: "marketData (newComponent (Some roundingSeries)) = Some roundingSeries"
    by (simp add: newComponent_def)
  have h2: "dataPoints roundingSeries \<noteq> []" by (simp add: roundingSeries_def seriesOf_def)
  have l3: "list_all is_double (pricesOf (dataPoints roundingSeries))" by code_simp
  then have h3: "\<forall>p\<in>priceSet (dataPoints roundingSeries). is_double p"
    by (simp add: list_all_iff set_pricesOf)
  have lo: "rawMin (dataPoints roundingSeries) = dbl (10119 / 10)" by code_simp
  have hi: "rawMax (dataPoints roundingSeries) = dbl (61309 / 10)" by code_simp
  have f1: "fmul (of_int \<lfloor>fdiv (fsub (dbl (10119 / 10))
      (fmul (fsub (dbl (61309 / 10)) (dbl (10119 / 10))) (dbl (1 / 10)))) 100\<rfloor>) 100 = 400"
    by code_simp
  have f2: "fmul (of_int \<lceil>fdiv (fadd (dbl (61309 / 10))
      (fmul (fsub (dbl (61309 / 10)) (dbl (10119 / 10))) (dbl (1 / 10)))) 100\<rceil>) 100 = 6700"
    by code_simp
  from scale_formula [OF h1 h2 h3, of plainLabel]
  have a: "minPrice (chartConfig (initializeData_double plainLabel (newComponent (Some roundingSeries)))) = 400
     \<and> maxPrice (chartConfig (initializeData_double plainLabel (newComponent (Some roundingSeries)))) = 6700"
    unfolding Let_def lo hi f1 f2 by blast
  let ?m = "seriesOf [pointAt ''t'' 150]"
  have g1: "marketData (newComponent (Some ?m)) = Some ?m" by (simp add: newComponent_def)
  have g2: "dataPoints ?m \<noteq> []" by (simp add: seriesOf_def)
  have k3: "list_all is_double (pricesOf (dataPoints ?m))" by code_simp
  then have g3: "\<forall>p\<in>priceSet (dataPoints ?m). is_double p"
    by (simp add: list_all_iff set_pricesOf)
  have g4: "rawMax (dataPoints ?m) = rawMin (dataPoints ?m)" by code_simp
  have q: "fdiv (rawMin (dataPoints ?m)) 100 = 3 / 2" by code_simp
  have g5: "fdiv (rawMin (dataPoints ?m)) 100 \<notin> \<int>"
  proof
    assume "fdiv (rawMin (dataPoints ?m)) 100 \<in> \<int>"
    then obtain k :: int where "(3 / 2 :: rat) = of_int k" unfolding q by (rule Ints_cases)
    then have "(3 :: rat) = of_int (2 * k)" by simp
    then have "(3 :: int) = 2 * k" by (metis of_int_eq_iff of_int_numeral)
    then show False by presburger
  qed
  from scale_formula [OF g1 g2 g3, of plainLabel] g4 g5
  have b: "minPrice (chartConfig (initializeData_double plainLabel (newComponent (Some ?m))))
       \<noteq> maxPrice (chartConfig (initializeData_double plainLabel (newComponent (Some ?m))))"
    unfolding Let_def by blast
  show ?thesis using h1 h2 l3 a g1 g2 k3 g4 g5 b by blast
qed

section \<open>Labels of the price axis\<close>




section \<open>Heights of wick and body\<close>

text \<open>
  C5, as claimed: the wick height is at least 0 for every point of every series. The
  component does not check that the low of a point is not above its high. For the
  one-point series with open 100, high 100, low 200, close 200 the scale is 0 to 300,
  the high is drawn at 260, the low at 140, and the wick height is -120.
\<close>

theorem inverted_point_negative_wick:
  "wick_height (fst (createCandlestick
      (initializeData plainLabel (newComponent (Some (seriesOf [invertedPoint]))))
      invertedPoint 0)) = Fin (- 120)
   \<and> \<not> jle (Fin 0) (wick_height (fst (createCandlestick
      (initializeData plainLabel (newComponent (Some (seriesOf [invertedPoint]))))
      invertedPoint 0)))"
  by code_simp

text \<open>
  C5, amended: on a scale with \<open>minPrice < maxPrice\<close> (and the chart height not
  negative; the component fixes it at 360), every candlestick \<open>renderChart\<close> attaches
  has a body height of at least 2, and a wick height of at least 0 when the low of its
  point is not above the high. Nothing is said about the scale with
  \<open>minPrice = maxPrice\<close>.
\<close>

theorem wick_and_body_heights:
  assumes "marketData s = Some md" and "dataPoints md \<noteq> []" and "chartContainer s"
    and "minPrice (chartConfig s) < maxPrice (chartConfig s)"
    and "0 \<le> chartHeight (chartConfig s)"
    and "e \<in> set (candlesticks (renderChart s))"
  shows "jle (Fin 2) (body_height e)
         \<and> (low (hover_data e) \<le> high (hover_data e) \<longrightarrow> jle (Fin 0) (wick_height e))"
proof -
  from assms(1,3,2,6) obtain j where e: "e = fst (createCandlestick s (dataPoints md ! j) j)"
    by (rule in_candlesticks_renderChart)
  have ne: "maxPrice (chartConfig s) \<noteq> minPrice (chartConfig s)" using assms(4) by simp
  have body: "jle (Fin 2) (body_height e)"
    unfolding e by (rule createCandlestick_body_height [OF ne])
  have wick: "jle (Fin 0) (wick_height e)" if "low (hover_data e) \<le> high (hover_data e)"
  proof -
    from that have "low (dataPoints md ! j) \<le> high (dataPoints md ! j)"
      by (simp add: e hover_data_createCandlestick)
    then show ?thesis
      unfolding e by (rule createCandlestick_wick_height [OF assms(4,5)])
  qed
  from body wick show ?thesis by blast
qed

theorem wick_and_body_heights_witness:
  "marketData (mounted None) = Some sampleMarketData
   \<and> dataPoints sampleMarketData \<noteq> []
   \<and> chartContainer (mounted None)
   \<and> minPrice (chartConfig (mounted None)) < maxPrice (chartConfig (mounted None))
   \<and> 0 \<le> chartHeight (chartConfig (mounted None))
   \<and> hd (candlesticks (renderChart (mounted None))) \<in> set (candlesticks (renderChart (mounted None)))
   \<and> low (hover_data (hd (candlesticks (renderChart (mounted None)))))
       \<le> high (hover_data (hd (candlesticks (renderChart (mounted None)))))
   \<and> jle (Fin 2) (body_height (hd (candlesticks (renderChart (mounted None)))))
   \<and> jle (Fin 0) (wick_height (hd (candlesticks (renderChart (mounted None)))))"
proof -
  have h1: "marketData (mounted None) = Some sampleMarketData" by code_simp
  have h2: "dataPoints sampleMarketData \<noteq> []" by (simp add: sampleMarketData_def)
  have h3: "chartContainer (mounted None)" by code_simp
  have h4: "minPrice (chartConfig (mounted None)) < maxPrice (chartConfig (mounted None))"
    by code_simp
  have h5: "0 \<le> chartHeight (chartConfig (mounted None))" by code_simp
  have ne: "candlesticks (renderChart (mounted None)) \<noteq> []" by code_simp
  have h6: "hd (candlesticks (renderChart (mounted None))) \<in> set (candlesticks (renderChart (mounted None)))"
    using ne by (rule hd_in_set)
  have h7: "low (hover_data (hd (candlesticks (renderChart (mounted None)))))
       \<le> high (hover_data (hd (candlesticks (renderChart (mounted None)))))"
    by code_simp
  show ?thesis
    using h1 h2 h3 h4 h5 h6 h7 wick_and_body_heights [OF h1 h2 h3 h4 h5 h6]
    by blast
qed

section \<open>Horizontal placement and resize\<close>

lemma resizeCallback_single:
  "0 < width \<Longrightarrow> resizeCallback [width] s = renderChart (withChartWidth (width - 80) s)"
  by (simp add: withChartWidth_def)

lemma renderChart_y_frame:
  assumes "marketData s = Some md" and "dataPoints md \<noteq> []" and "chartContainer s"
  shows "map wick_top (candlesticks (renderChart (withChartWidth w s)))
           = map wick_top (candlesticks (renderChart s))"
    and "map wick_height (candlesticks (renderChart (withChartWidth w s)))
           = map wick_height (candlesticks (renderChart s))"
    and "map body_top (candlesticks (renderChart (withChartWidth w s)))
           = map body_top (candlesticks (renderChart s))"
    and "map body_height (candlesticks (renderChart (withChartWidth w s)))
           = map body_height (candlesticks (renderChart s))"
proof -
  have m: "marketData (withChartWidth w s) = Some md" and c: "chartContainer (withChartWidth w s)"
    using assms by (simp_all add: withChartWidth_def)
  note r = candlesticks_renderChart [OF assms(1,3,2)] candlesticks_renderChart [OF m c assms(2)]
  show "map wick_top (candlesticks (renderChart (withChartWidth w s)))
           = map wick_top (candlesticks (renderChart s))"
    by (simp add: r case_prod_beta createCandlestick_y_frame)
  show "map wick_height (candlesticks (renderChart (withChartWidth w s)))
           = map wick_height (candlesticks (renderChart s))"
    by (simp add: r case_prod_beta createCandlestick_y_frame)
  show "map body_top (candlesticks (renderChart (withChartWidth w s)))
           = map body_top (candlesticks (renderChart s))"
    by (simp add: r case_prod_beta createCandlestick_y_frame)
  show "map body_height (candlesticks (renderChart (withChartWidth w s)))
           = map body_height (candlesticks (renderChart s))"
    by (simp add: r case_prod_beta createCandlestick_y_frame)
qed

text \<open>
  C6. For a series of \<open>n \<ge> 1\<close> points the candlestick of index \<open>i\<close> is placed at
  \<open>x = 20 + i * spacing + (spacing - candleWidth) / 2\<close> with
  \<open>spacing = chartWidth / n\<close>. When only the chart width changes, from \<open>w\<close> to
  \<open>w'\<close>, the spacing changes in the ratio of the widths, \<open>x\<close> is the same formula on
  the new spacing (so the offset of the middle of the candlestick from the left margin
  changes in the ratio of the widths too), and top and height of wick and body and the
  colour stay as they were, for each candlestick and for the whole rendered chart.
\<close>

theorem resize_recomputes_x_only:
  assumes "marketData s = Some md" and "dataPoints md \<noteq> []"
  shows
    "let n = of_nat (length (dataPoints md));
         w = chartWidth (chartConfig s);
         cw = candleWidth (chartConfig s);
         e = fst (createCandlestick s d i);
         e' = fst (createCandlestick (withChartWidth w' s) d i)
     in c_left e = 20 + of_nat i * (w / n) + (w / n - cw) / 2
        \<and> c_left e' = 20 + of_nat i * (w' / n) + (w' / n - cw) / 2
        \<and> (w' / n) * w = (w / n) * w'
        \<and> (c_left e' - 20 + cw / 2) * w = (c_left e - 20 + cw / 2) * w'
        \<and> wick_top e' = wick_top e \<and> wick_height e' = wick_height e
        \<and> body_top e' = body_top e \<and> body_height e' = body_height e
        \<and> body_green e' = body_green e
        \<and> (chartContainer s \<longrightarrow>
             map wick_top (candlesticks (renderChart (withChartWidth w' s)))
               = map wick_top (candlesticks (renderChart s))
             \<and> map wick_height (candlesticks (renderChart (withChartWidth w' s)))
               = map wick_height (candlesticks (renderChart s))
             \<and> map body_top (candlesticks (renderChart (withChartWidth w' s)))
               = map body_top (candlesticks (renderChart s))
             \<and> map body_height (candlesticks (renderChart (withChartWidth w' s)))
               = map body_height (candlesticks (renderChart s)))"
proof -
  let ?n = "of_nat (length (dataPoints md)) :: rat"
  let ?w = "chartWidth (chartConfig s)" and ?cw = "candleWidth (chartConfig s)"
  let ?e = "fst (createCandlestick s d i)"
  let ?e' = "fst (createCandlestick (withChartWidth w' s) d i)"
  have m: "marketData (withChartWidth w' s) = Some md" using assms(1)
    by (simp add: withChartWidth_def)
  have x: "c_left ?e = 20 + of_nat i * (?w / ?n) + (?w / ?n - ?cw) / 2"
    by (rule createCandlestick_c_left [OF assms])
  have x': "c_left ?e' = 20 + of_nat i * (w' / ?n) + (w' / ?n - ?cw) / 2"
    using createCandlestick_c_left [OF m assms(2), of d i] by (simp add: withChartWidth_def)
  have sp: "(w' / ?n) * ?w = (?w / ?n) * w'" by simp
  have mid: "(c_left ?e' - 20 + ?cw / 2) * ?w = (c_left ?e - 20 + ?cw / 2) * w'"
    by (simp add: x x' field_simps)
  note y = createCandlestick_y_frame [of w' s d i]
  have all: "chartContainer s \<longrightarrow>
             map wick_top (candlesticks (renderChart (withChartWidth w' s)))
               = map wick_top (candlesticks (renderChart s))
             \<and> map wick_height (candlesticks (renderChart (withChartWidth w' s)))
               = map wick_height (candlesticks (renderChart s))
             \<and> map body_top (candlesticks (renderChart (withChartWidth w' s)))
               = map body_top (candlesticks (renderChart s))
             \<and> map body_height (candlesticks (renderChart (withChartWidth w' s)))
               = map body_height (candlesticks (renderChart s))"
    using renderChart_y_frame [OF assms, of w'] by blast
  show ?thesis
    unfolding Let_def using x x' sp mid y all by blast
qed

theorem resize_recomputes_x_only_witness:
  "marketData (mounted None) = Some sampleMarketData
   \<and> dataPoints sampleMarketData \<noteq> []
   \<and> chartWidth (chartConfig (mounted None)) = 1040
   \<and> map c_left (candlesticks (renderChart (mounted None)))
       = [590 / 7, 1630 / 7, 2670 / 7, 530, 4750 / 7, 5790 / 7, 6830 / 7]
   \<and> map c_left (candlesticks (renderChart (withChartWidth 500 (mounted None))))
       = [320 / 7, 820 / 7, 1320 / 7, 260, 2320 / 7, 2820 / 7, 3320 / 7]
   \<and> c_left (fst (createCandlestick (withChartWidth 500 (mounted None))
        (dataPoints sampleMarketData ! 3) 3)) = 260
   \<and> map wick_top (candlesticks (renderChart (withChartWidth 500 (mounted None))))
       = map wick_top (candlesticks (renderChart (mounted None)))
   \<and> map body_height (candlesticks (renderChart (withChartWidth 500 (mounted None))))
       = map body_height (candlesticks (renderChart (mounted None)))"
proof -
  have h1: "marketData (mounted None) = Some sampleMarketData" by code_simp
  have h2: "dataPoints sampleMarketData \<noteq> []" by (simp add: sampleMarketData_def)
  have h3: "chartContainer (mounted None)" by code_simp
  have w: "chartWidth (chartConfig (mounted None)) = 1040" by code_simp
  have cw: "candleWidth (chartConfig (mounted None)) = 20" by code_simp
  have n: "length (dataPoints sampleMarketData) = 7" by (simp add: sampleMarketData_def)
  have xs: "map c_left (candlesticks (renderChart (mounted None)))
       = [590 / 7, 1630 / 7, 2670 / 7, 530, 4750 / 7, 5790 / 7, 6830 / 7]"
    by code_simp
  have xs': "map c_left (candlesticks (renderChart (withChartWidth 500 (mounted None))))
       = [320 / 7, 820 / 7, 1320 / 7, 260, 2320 / 7, 2820 / 7, 3320 / 7]"
    by code_simp
  from resize_recomputes_x_only
    [OF h1 h2, where w' = 500 and d = "dataPoints sampleMarketData ! 3" and i = 3]
  have "c_left (fst (createCandlestick (withChartWidth 500 (mounted None))
          (dataPoints sampleMarketData ! 3) 3)) = 20 + 3 * (500 / 7) + (500 / 7 - 20) / 2
        \<and> map wick_top (candlesticks (renderChart (withChartWidth 500 (mounted None))))
            = map wick_top (candlesticks (renderChart (mounted None)))
        \<and> map body_height (candlesticks (renderChart (withChartWidth 500 (mounted None))))
            = map body_height (candlesticks (renderChart (mounted None)))"
    unfolding Let_def using h3 by (simp add: w cw n)
  then show ?thesis using h1 h2 w xs xs' by simp
qed

section \<open>Prices and pixels within bounds\<close>



end
